theory Spec2Isabelle
  imports Complex_Main "HOL-Library.Sublist"
begin

section \<open>Playground model settings: data model\<close>

text \<open>
  The development embeds \<^verbatim>\<open>modelSettings.tsx\<close>: the component \<^verbatim>\<open>ModelSettings\<close>, which
  seeds the settings form of the selected LLM provider and builds its yup schema, and the
  component \<^verbatim>\<open>SettingsForm\<close>, which shows the provider warning and copies the form values
  back into the playground state.

  A setting value has the TypeScript type \<^verbatim>\<open>string | number | boolean | string[]\<close>.
  Strings, numbers and booleans are compared by value by \<^verbatim>\<open>===\<close>; an array is an object
  and is compared by identity, so an array value is represented by the address of the array.
  With this representation \<^verbatim>\<open>a === b\<close> is the HOL equality \<open>a = b\<close>. Numbers are
  modelled as reals: \<^verbatim>\<open>NaN\<close> and the infinities are outside the model.

  The settings objects are plain objects, so a read \<^verbatim>\<open>obj[key]\<close> that finds no own
  property goes on to \<^verbatim>\<open>Object.prototype\<close>. What it finds there (a built-in function,
  or the prototype object itself for \<^verbatim>\<open>__proto__\<close>) is not a setting value of the
  declared type, but it is what the code then holds; it is the value \<open>VInherited key\<close>,
  one object for each key.
\<close>

type_synonym addr = nat

datatype jsval = VStr string | VNum real | VBool bool | VArr addr | VInherited string

text \<open>
  \<^verbatim>\<open>ILLMSettings\<close>: the own properties of a settings object, from parameter id to
  value. An own property has a value of the declared type, so it is never undefined.
\<close>

type_synonym ILLMSettings = "string \<rightharpoonup> jsval"

text \<open>The names of the properties of \<^verbatim>\<open>Object.prototype\<close>.\<close>

definition object_prototype_keys :: "string list" where
  "object_prototype_keys =
     [''constructor'', ''__defineGetter__'', ''__defineSetter__'', ''hasOwnProperty'',
      ''__lookupGetter__'', ''__lookupSetter__'', ''isPrototypeOf'', ''propertyIsEnumerable'',
      ''toString'', ''valueOf'', ''__proto__'', ''toLocaleString'']"

text \<open>
  The read \<^verbatim>\<open>obj[key]\<close> on a plain object: the own property, else the property
  inherited from \<^verbatim>\<open>Object.prototype\<close>, else undefined.
\<close>

definition js_get :: "ILLMSettings \<Rightarrow> string \<Rightarrow> jsval option" where
  "js_get obj k =
     (case obj k of
        Some v \<Rightarrow> Some v
      | None \<Rightarrow> if k \<in> set object_prototype_keys then Some (VInherited k) else None)"

text \<open>
  The assignment \<^verbatim>\<open>obj[key] = v\<close> on an object created by \<^verbatim>\<open>{}\<close>, as far as the own
  properties of the object go: the key \<^verbatim>\<open>__proto__\<close> is an accessor of
  \<^verbatim>\<open>Object.prototype\<close>, so assigning to it calls the setter and creates no own property;
  any other key becomes an own property holding \<open>v\<close>.
\<close>

definition js_set :: "(string \<rightharpoonup> 'a) \<Rightarrow> string \<Rightarrow> 'a \<Rightarrow> (string \<rightharpoonup> 'a)" where
  "js_set obj k v = (if k = ''__proto__'' then obj else obj(k \<mapsto> v))"

text \<open>An entry of the \<^verbatim>\<open>items\<close> of a select input: \<^verbatim>\<open>{label, value}\<close>.\<close>

record item =
  label :: string
  item_value :: jsval

text \<open>
  \<^verbatim>\<open>TFormInput\<close>, with the fields the component reads: \<^verbatim>\<open>id\<close>, \<^verbatim>\<open>type\<close>,
  \<^verbatim>\<open>items\<close>, \<^verbatim>\<open>min\<close>, \<^verbatim>\<open>max\<close> and \<^verbatim>\<open>initial\<close>. The type is kept as the string
  the code compares it with; every field but the first two may be undefined.
\<close>

record TFormInput =
  input_id :: string
  input_type :: string
  items :: "item list option"
  input_min :: "real option"
  input_max :: "real option"
  initial :: "jsval option"

text \<open>\<^verbatim>\<open>ILLMProvider\<close>, with the fields the component reads.\<close>

record ILLMProvider =
  provider_id :: string
  provider_name :: string
  is_chat :: bool
  inputs :: "TFormInput list"

text \<open>
  The yup schemas the component builds: \<^verbatim>\<open>yup.string()\<close>, \<^verbatim>\<open>yup.number()\<close> with the
  bounds given to \<^verbatim>\<open>.min\<close> and \<^verbatim>\<open>.max\<close> (none when the call was not made), and
  \<^verbatim>\<open>yup.array().of(yup.string())\<close>.
\<close>

datatype yup_schema =
    YupString
  | YupNumber "real option" "real option"
  | YupArrayOfString

type_synonym Schema = "string \<rightharpoonup> yup_schema"

section \<open>ModelSettings\<close>

text \<open>
  \<^verbatim>\<open>
  const isSettingCompatible = (value, input) => {
    if (input.type === 'select') {
      return !!input?.items?.find((i) => i.value === value);
    }
    return true;
  };
  \<close>
  \<^verbatim>\<open>find\<close> returns the first matching item (an object, hence truthy) or undefined;
  the optional chaining gives undefined when \<^verbatim>\<open>items\<close> is undefined.
\<close>

definition isSettingCompatible :: "jsval \<Rightarrow> TFormInput \<Rightarrow> bool" where
  "isSettingCompatible v input =
     (if input_type input = ''select''
      then (case items input of
              None \<Rightarrow> False
            | Some its \<Rightarrow> find (\<lambda>i. item_value i = v) its \<noteq> None)
      else True)"

text \<open>The truthiness of a \<^verbatim>\<open>number | undefined\<close>, as tested by \<^verbatim>\<open>if (input.min)\<close>.\<close>

definition truthy_number :: "real option \<Rightarrow> bool" where
  "truthy_number m = (case m of None \<Rightarrow> False | Some x \<Rightarrow> x \<noteq> 0)"

text \<open>
  The schema of a slider:
  \<^verbatim>\<open>
  let schema = yup.number();
  if (input.min) { schema = schema.min(input.min); }
  if (input.max) { schema = schema.max(input.max); }
  \<close>
\<close>

definition slider_schema :: "TFormInput \<Rightarrow> yup_schema" where
  "slider_schema input =
     YupNumber (if truthy_number (input_min input) then input_min input else None)
               (if truthy_number (input_max input) then input_max input else None)"

text \<open>
  The callback given to \<^verbatim>\<open>provider.inputs.reduce\<close>. It assigns into \<^verbatim>\<open>settings\<close>, a
  variable of the enclosing function, and into its accumulator \<^verbatim>\<open>object\<close>; the model
  passes the own properties of both as a pair. \<^verbatim>\<open>currentSettings\<close> and
  \<^verbatim>\<open>origSettings\<close> are only read.
  \<^verbatim>\<open>
  const settingValue =
    currentSettings[input.id] !== undefined
      ? currentSettings[input.id]
      : origSettings[input.id];
  if (settingValue !== undefined && isSettingCompatible(settingValue, input)) {
    settings[input.id] = settingValue;
  } else if (input.initial !== undefined) {
    settings[input.id] = input.initial;
  }
  switch (input.type) {
    case 'select': object[input.id] = yup.string(); break;
    case 'slider': { ...; object[input.id] = schema; break; }
    case 'tags': object[input.id] = yup.array().of(yup.string()); break;
  }
  return object;
  \<close>
\<close>

definition reducer ::
  "ILLMSettings \<Rightarrow> ILLMSettings \<Rightarrow> ILLMSettings \<times> Schema \<Rightarrow> TFormInput \<Rightarrow> ILLMSettings \<times> Schema"
where
  "reducer currentSettings origSettings st input =
     (let settings = fst st;
          object = snd st;
          settingValue =
            (if js_get currentSettings (input_id input) \<noteq> None
             then js_get currentSettings (input_id input)
             else js_get origSettings (input_id input));
          settings' =
            (if settingValue \<noteq> None \<and> isSettingCompatible (the settingValue) input
             then js_set settings (input_id input) (the settingValue)
             else if initial input \<noteq> None
             then js_set settings (input_id input) (the (initial input))
             else settings);
          object' =
            (if input_type input = ''select''
             then js_set object (input_id input) YupString
             else if input_type input = ''slider''
             then js_set object (input_id input) (slider_schema input)
             else if input_type input = ''tags''
             then js_set object (input_id input) YupArrayOfString
             else object)
      in (settings', object'))"

text \<open>
  The body of \<^verbatim>\<open>ModelSettings\<close> after the provider check: \<^verbatim>\<open>settings\<close> starts as
  \<^verbatim>\<open>{}\<close>, the accumulator of \<^verbatim>\<open>reduce\<close> starts as \<^verbatim>\<open>{}\<close>, and the inputs are visited
  in order. The result is the pair of the props given to \<^verbatim>\<open>SettingsForm\<close>.
\<close>

definition resolve ::
  "TFormInput list \<Rightarrow> ILLMSettings \<Rightarrow> ILLMSettings \<Rightarrow> ILLMSettings \<times> Schema"
where
  "resolve ins currentSettings origSettings =
     foldl (reducer currentSettings origSettings) (Map.empty, Map.empty) ins"

section \<open>The playground state\<close>

text \<open>
  The prompt held by the playground state. The component reads \<^verbatim>\<open>provider\<close> and
  \<^verbatim>\<open>settings\<close>; the other own properties of the object (messages, template, ...) are
  kept as a dictionary, which is what the object spread copies. The type \<open>'s\<close> is
  the representation of a settings object: the dictionary itself, or its address in a store.
\<close>

record ('s, 'v) IPrompt =
  prompt_provider :: "string option"
  prompt_settings :: "'s option"
  prompt_rest :: "string \<rightharpoonup> 'v"

text \<open>
  The playground state, with the fields the component reads; any other field lives in the
  extension part of the record.
\<close>

record ('s, 'v) IPlayground =
  providers :: "ILLMProvider list option"
  prompt :: "('s, 'v) IPrompt option"
  originalPrompt :: "('s, 'v) IPrompt option"

text \<open>The object \<^verbatim>\<open>{}\<close> seen as a prompt: what \<^verbatim>\<open>{...undefined}\<close> evaluates to.\<close>

definition empty_prompt :: "('s, 'v) IPrompt" where
  "empty_prompt = \<lparr>prompt_provider = None, prompt_settings = None, prompt_rest = Map.empty\<rparr>"

text \<open>\<^verbatim>\<open>playground?.prompt?.provider\<close>\<close>

definition prompt_provider_of :: "('s, 'v, 'z) IPlayground_scheme \<Rightarrow> string option" where
  "prompt_provider_of playground =
     (case prompt playground of None \<Rightarrow> None | Some p \<Rightarrow> prompt_provider p)"

text \<open>\<^verbatim>\<open>playground?.prompt?.settings\<close> and \<^verbatim>\<open>playground?.originalPrompt?.settings\<close>\<close>

definition settings_of :: "('s, 'v) IPrompt option \<Rightarrow> 's option" where
  "settings_of pr = (case pr of None \<Rightarrow> None | Some p \<Rightarrow> prompt_settings p)"

section \<open>SettingsForm\<close>

text \<open>
  The effect that follows \<^verbatim>\<open>formik.values\<close>:
  \<^verbatim>\<open>
  setPlayground((old) => ({
    ...old,
    prompt: { ...old.prompt!, settings: formik.values }
  }));
  \<close>
  Spreading an undefined prompt copies nothing.
\<close>

definition sync_settings ::
  "'s \<Rightarrow> ('s, 'v, 'z) IPlayground_scheme \<Rightarrow> ('s, 'v, 'z) IPlayground_scheme"
where
  "sync_settings formik_values old =
     old\<lparr>prompt :=
           Some ((case prompt old of None \<Rightarrow> empty_prompt | Some p \<Rightarrow> p)
                   \<lparr>prompt_settings := Some formik_values\<rparr>)\<rparr>"

text \<open>The truthiness of a \<^verbatim>\<open>string | undefined\<close>.\<close>

definition truthy_string :: "string option \<Rightarrow> bool" where
  "truthy_string s = (case s of None \<Rightarrow> False | Some t \<Rightarrow> t \<noteq> [])"

text \<open>
  The text of the warning alert, \<open>None\<close> when no alert is rendered:
  \<^verbatim>\<open>
  const providerWarning = !providerFound ? (
    <Alert severity="warning">
      {playground.prompt?.provider
        ? `${playground?.prompt?.provider} provider is not found, using 
      ${provider.name} instead.`
        : `Provider not specified, using ${provider.name} instead.`}
    </Alert>
  ) : null;
  \<close>
  The first template literal contains a line break followed by six spaces.
\<close>

definition providerWarning ::
  "('s, 'v, 'z) IPlayground_scheme \<Rightarrow> ILLMProvider \<Rightarrow> bool \<Rightarrow> string option"
where
  "providerWarning playground provider providerFound =
     (if \<not> providerFound
      then Some (if truthy_string (prompt_provider_of playground)
                 then the (prompt_provider_of playground)
                      @ '' provider is not found, using '' @ [CHR 0x0A] @ ''      ''
                      @ provider_name provider @ '' instead.''
                 else ''Provider not specified, using '' @ provider_name provider @ '' instead.'')
      else None)"

text \<open>
  Modelled from the spec: \<^verbatim>\<open>getProviders\<close> of \<^verbatim>\<open>./helpers\<close> is not among the sources.
  The spec says that a provider id referenced by the session state and absent from the known
  providers is resolved by falling back to a designated default provider. The default
  provider is a parameter; the result is the triple \<^verbatim>\<open>{provider, providers, providerFound}\<close>
  that \<^verbatim>\<open>SettingsForm\<close> destructures.
\<close>

definition getProviders ::
  "ILLMProvider \<Rightarrow> ('s, 'v, 'z) IPlayground_scheme \<Rightarrow> ILLMProvider \<times> ILLMProvider list \<times> bool"
where
  "getProviders default_provider playground =
     (let known = (case providers playground of None \<Rightarrow> [] | Some ps \<Rightarrow> ps)
      in case prompt_provider_of playground of
           None \<Rightarrow> (default_provider, known, False)
         | Some pid \<Rightarrow>
             (case find (\<lambda>p. provider_id p = pid) known of
                Some p \<Rightarrow> (p, known, True)
              | None \<Rightarrow> (default_provider, known, False)))"

text \<open>
  The warning \<^verbatim>\<open>SettingsForm\<close> renders for a playground state: the provider and the
  flag come from \<^verbatim>\<open>getProviders(playground)\<close>.
\<close>

definition SettingsForm_warning ::
  "ILLMProvider \<Rightarrow> ('s, 'v, 'z) IPlayground_scheme \<Rightarrow> ILLMProvider \<times> string option"
where
  "SettingsForm_warning default_provider playground =
     (case getProviders default_provider playground of
        (provider, known, providerFound) \<Rightarrow>
          (provider, providerWarning playground provider providerFound))"

section \<open>Validation by the built schema\<close>

text \<open>
  The tests of a yup number schema on a number: \<^verbatim>\<open>.min(m)\<close> passes when the value is
  at least \<open>m\<close>, \<^verbatim>\<open>.max(m)\<close> when it is at most \<open>m\<close>; a bound that was never added
  tests nothing.
\<close>

definition yup_number_accepts :: "real option \<Rightarrow> real option \<Rightarrow> real \<Rightarrow> bool" where
  "yup_number_accepts lo hi x =
     ((case lo of None \<Rightarrow> True | Some m \<Rightarrow> m \<le> x) \<and>
      (case hi of None \<Rightarrow> True | Some m \<Rightarrow> x \<le> m))"

text \<open>
  \<^verbatim>\<open>yup.object(shape)\<close> validates the fields that have an entry in the shape, each with
  its own schema; the object schema is not made strict, so a field without an entry is not
  validated at all. How a schema judges a value is yup's business and is the parameter
  \<open>ok\<close>.
\<close>

definition field_blocked ::
  "(yup_schema \<Rightarrow> jsval option \<Rightarrow> bool) \<Rightarrow> Schema \<Rightarrow> ILLMSettings \<Rightarrow> string \<Rightarrow> bool"
where
  "field_blocked ok shape vals k =
     (case shape k of None \<Rightarrow> False | Some sch \<Rightarrow> \<not> ok sch (vals k))"

section \<open>ModelSettings on a store\<close>

text \<open>
  To speak about mutation and fresh objects, the settings dictionaries and the arrays live in
  a store: a list of cells, an address being an index. Allocation appends a cell.
\<close>

datatype cell = Obj ILLMSettings | Arr "string list"

type_synonym heap = "cell list"

definition alloc :: "cell \<Rightarrow> heap \<Rightarrow> addr \<times> heap" where
  "alloc c h = (length h, h @ [c])"

text \<open>
  The dictionary at an address. The code only dereferences settings objects it was given or
  has created; for any other address the model reads an object without properties.
\<close>

definition obj_at :: "heap \<Rightarrow> addr \<Rightarrow> ILLMSettings" where
  "obj_at h a =
     (if a < length h then (case h ! a of Obj m \<Rightarrow> m | Arr xs \<Rightarrow> Map.empty) else Map.empty)"

definition is_obj :: "heap \<Rightarrow> addr \<Rightarrow> bool" where
  "is_obj h a = (a < length h \<and> (case h ! a of Obj m \<Rightarrow> True | Arr xs \<Rightarrow> False))"

text \<open>\<^verbatim>\<open>x || {}\<close> for an optional reference: a new empty object when it is undefined.\<close>

definition or_empty :: "addr option \<Rightarrow> heap \<Rightarrow> addr \<times> heap" where
  "or_empty r h = (case r of Some a \<Rightarrow> (a, h) | None \<Rightarrow> alloc (Obj Map.empty) h)"

text \<open>
  One call of the callback on the store: it reads the two input objects and the object
  \<^verbatim>\<open>settings\<close> where they are now, and stores the updated \<^verbatim>\<open>settings\<close>.
\<close>

definition reducer_h ::
  "addr \<Rightarrow> addr \<Rightarrow> addr \<Rightarrow> heap \<times> Schema \<Rightarrow> TFormInput \<Rightarrow> heap \<times> Schema"
where
  "reducer_h s c g st input =
     (let h = fst st;
          r = reducer (obj_at h c) (obj_at h g) (obj_at h s, snd st) input
      in (h[s := Obj (fst r)], snd r))"

text \<open>
  \<^verbatim>\<open>
  const { provider } = getProviders(playground);
  if (!provider) { return null; }
  const settings: ILLMSettings = {};
  const currentSettings = playground?.prompt?.settings || {};
  const origSettings = playground?.originalPrompt?.settings || {};
  const schema = yup.object(provider.inputs.reduce(..., {}));
  return <SettingsForm schema={schema} settings={settings} />;
  \<close>
  The result is the address of \<^verbatim>\<open>settings\<close> with the schema, and the store after the
  call.
\<close>

definition ModelSettings ::
  "ILLMProvider option \<Rightarrow> (addr, 'v, 'z) IPlayground_scheme \<Rightarrow> heap
     \<Rightarrow> (addr \<times> Schema) option \<times> heap"
where
  "ModelSettings provider playground h =
     (case provider of
        None \<Rightarrow> (None, h)
      | Some p \<Rightarrow>
          (let (s, h1) = alloc (Obj Map.empty) h;
               (c, h2) = or_empty (settings_of (prompt playground)) h1;
               (g, h3) = or_empty (settings_of (originalPrompt playground)) h2;
               (h4, object) = foldl (reducer_h s c g) (h3, Map.empty) (inputs p)
           in (Some (s, object), h4)))"

text \<open>The other own properties of the prompt of a playground state.\<close>

definition prompt_rest_of :: "('s, 'v, 'z) IPlayground_scheme \<Rightarrow> string \<rightharpoonup> 'v" where
  "prompt_rest_of playground =
     (case prompt playground of None \<Rightarrow> Map.empty | Some p \<Rightarrow> prompt_rest p)"

text \<open>
  What an optional reference to a settings object stands for in a store: the dictionary at
  the address, or no properties when the reference is undefined (the \<^verbatim>\<open>|| {}\<close>). A
  reference held by the playground state is valid when it is the address of a settings
  object of the store.
\<close>

definition settings_contents :: "heap \<Rightarrow> addr option \<Rightarrow> ILLMSettings" where
  "settings_contents h r = (case r of None \<Rightarrow> Map.empty | Some a \<Rightarrow> obj_at h a)"

definition valid_ref :: "heap \<Rightarrow> addr option \<Rightarrow> bool" where
  "valid_ref h r = (case r of None \<Rightarrow> True | Some a \<Rightarrow> is_obj h a)"

section \<open>The scenario of the specification\<close>

text \<open>
  A slider \<^verbatim>\<open>temperature\<close> with bounds 0 and 2 and initial value 1, and a select
  \<^verbatim>\<open>model\<close> with the items \<^verbatim>\<open>a\<close> and \<^verbatim>\<open>b\<close> and initial value \<^verbatim>\<open>a\<close>. The scenario
  does not give labels to the items, so they are parameters.
\<close>

definition temperature_input :: TFormInput where
  "temperature_input =
     \<lparr>input_id = ''temperature'', input_type = ''slider'', items = None,
      input_min = Some 0, input_max = Some 2, initial = Some (VNum 1)\<rparr>"

definition model_input :: "string \<Rightarrow> string \<Rightarrow> TFormInput" where
  "model_input la lb =
     \<lparr>input_id = ''model'', input_type = ''select'',
      items = Some [\<lparr>label = la, item_value = VStr ''a''\<rparr>, \<lparr>label = lb, item_value = VStr ''b''\<rparr>],
      input_min = None, input_max = None, initial = Some (VStr ''a'')\<rparr>"

text \<open>An input of a kind the schema switch does not list, and a provider with the three inputs.\<close>

definition stream_input :: TFormInput where
  "stream_input =
     \<lparr>input_id = ''stream'', input_type = ''switch'', items = None,
      input_min = None, input_max = None, initial = Some (VBool False)\<rparr>"

definition openai :: ILLMProvider where
  "openai =
     \<lparr>provider_id = ''openai'', provider_name = ''OpenAI'', is_chat = False,
      inputs = [temperature_input, model_input ''A'' ''B'', stream_input]\<rparr>"

text \<open>
  Two inputs whose ids name properties of \<^verbatim>\<open>Object.prototype\<close>: a text input
  \<^verbatim>\<open>toString\<close> with the initial value \<^verbatim>\<open>x\<close>, and a select \<^verbatim>\<open>__proto__\<close> without
  items and with the initial value \<^verbatim>\<open>a\<close>.
\<close>

definition toString_input :: TFormInput where
  "toString_input =
     \<lparr>input_id = ''toString'', input_type = ''textinput'', items = None,
      input_min = None, input_max = None, initial = Some (VStr ''x'')\<rparr>"

definition proto_input :: TFormInput where
  "proto_input =
     \<lparr>input_id = ''__proto__'', input_type = ''select'', items = None,
      input_min = None, input_max = None, initial = Some (VStr ''a'')\<rparr>"

text \<open>
  The scenario on a store: the current settings \<^verbatim>\<open>{temperature: 3}\<close> at address 0 and the
  original settings \<^verbatim>\<open>{model: "c"}\<close> at address 1.
\<close>

definition scenario_heap :: heap where
  "scenario_heap =
     [Obj (Map.empty(''temperature'' \<mapsto> VNum 3)), Obj (Map.empty(''model'' \<mapsto> VStr ''c''))]"

definition scenario_playground :: "(addr, unit) IPlayground" where
  "scenario_playground =
     \<lparr>providers = Some [openai],
      prompt = Some \<lparr>prompt_provider = Some ''openai'', prompt_settings = Some 0,
                     prompt_rest = Map.empty\<rparr>,
      originalPrompt = Some \<lparr>prompt_provider = Some ''openai'', prompt_settings = Some 1,
                             prompt_rest = Map.empty\<rparr>\<rparr>"

text \<open>A playground state whose prompt names a provider that is not among the known ones.\<close>

definition stale_playground :: "(addr, unit) IPlayground" where
  "stale_playground =
     \<lparr>providers = Some [openai],
      prompt = Some \<lparr>prompt_provider = Some ''gpt'', prompt_settings = None,
                     prompt_rest = Map.empty\<rparr>,
      originalPrompt = None\<rparr>"

section \<open>The callback, one input at a time\<close>

lemma proto_is_prototype_key: "''__proto__'' \<in> set object_prototype_keys"
  by (simp add: object_prototype_keys_def)

lemma js_get_ordinary: "k \<notin> set object_prototype_keys \<Longrightarrow> js_get obj k = obj k"
  by (simp add: js_get_def split: option.splits)

lemma reducer_settings_other:
  "k \<noteq> input_id x \<Longrightarrow> fst (reducer c g st x) k = fst st k"
  by (simp add: reducer_def js_set_def Let_def)

lemma reducer_schema_other:
  "k \<noteq> input_id x \<Longrightarrow> snd (reducer c g st x) k = snd st k"
  by (simp add: reducer_def js_set_def Let_def)

lemma foldl_reducer_settings_other:
  "k \<notin> input_id ` set xs \<Longrightarrow> fst (foldl (reducer c g) st xs) k = fst st k"
  by (induction xs arbitrary: st) (simp_all add: reducer_settings_other)

lemma foldl_reducer_schema_other:
  "k \<notin> input_id ` set xs \<Longrightarrow> snd (foldl (reducer c g) st xs) k = snd st k"
  by (induction xs arbitrary: st) (simp_all add: reducer_schema_other)

lemma reducer_settings_self:
  "fst st (input_id x) = None \<Longrightarrow>
   fst (reducer c g st x) (input_id x) =
     (if input_id x = ''__proto__'' then None
      else case (case js_get c (input_id x) of
                   Some v \<Rightarrow> Some v
                 | None \<Rightarrow> js_get g (input_id x)) of
             Some v \<Rightarrow> if isSettingCompatible v x then Some v else initial x
           | None \<Rightarrow> initial x)"
  by (auto simp add: reducer_def js_set_def Let_def split: option.splits)

lemma reducer_settings_dom:
  "dom (fst (reducer c g st x)) \<subseteq> insert (input_id x) (dom (fst st))"
  by (auto simp add: reducer_def js_set_def Let_def split: if_splits)

lemma foldl_reducer_settings_dom:
  "dom (fst (foldl (reducer c g) st xs)) \<subseteq> dom (fst st) \<union> input_id ` set xs"
proof (induction xs arbitrary: st)
  case Nil
  show ?case by simp
next
  case (Cons x xs)
  have "dom (fst (foldl (reducer c g) (reducer c g st x) xs))
          \<subseteq> dom (fst (reducer c g st x)) \<union> input_id ` set xs"
    by (rule Cons.IH)
  with reducer_settings_dom [of c g st x] show ?case by simp blast
qed

text \<open>
  With distinct ids, the entry of an input in the resolved settings is decided by the one
  call of the callback on that input: the inputs before it leave its key unset, the inputs
  after it leave its key alone. The reads go through the prototype, and the key
  \<^verbatim>\<open>__proto__\<close> is never set.
\<close>

lemma resolve_entry:
  assumes d: "distinct (map input_id ins)" and p: "p \<in> set ins"
  shows "fst (resolve ins current original) (input_id p) =
     (if input_id p = ''__proto__'' then None
      else case (case js_get current (input_id p) of
                   Some v \<Rightarrow> Some v
                 | None \<Rightarrow> js_get original (input_id p)) of
             Some v \<Rightarrow> if isSettingCompatible v p then Some v else initial p
           | None \<Rightarrow> initial p)"
proof -
  from p obtain xs ys where ins: "ins = xs @ p # ys"
    by (auto dest: split_list)
  from d ins have nx: "input_id p \<notin> input_id ` set xs" and ny: "input_id p \<notin> input_id ` set ys"
    by auto
  let ?f = "reducer current original"
  let ?st = "foldl ?f (Map.empty, Map.empty) xs"
  have before: "fst ?st (input_id p) = None"
    using foldl_reducer_settings_other [OF nx, of current original "(Map.empty, Map.empty)"]
    by simp
  have "fst (resolve ins current original) (input_id p) = fst (?f ?st p) (input_id p)"
    unfolding resolve_def ins by (simp add: foldl_reducer_settings_other [OF ny])
  also have "\<dots> =
     (if input_id p = ''__proto__'' then None
      else case (case js_get current (input_id p) of
                   Some v \<Rightarrow> Some v
                 | None \<Rightarrow> js_get original (input_id p)) of
             Some v \<Rightarrow> if isSettingCompatible v p then Some v else initial p
           | None \<Rightarrow> initial p)"
    by (rule reducer_settings_self [OF before])
  finally show ?thesis .
qed

section \<open>The schema, one input at a time\<close>

lemma reducer_schema_dom:
  "dom (snd (reducer c g st x)) =
     dom (snd st) \<union>
       (if input_type x \<in> {''select'', ''slider'', ''tags''} \<and> input_id x \<noteq> ''__proto__''
        then {input_id x} else {})"
  by (auto simp add: reducer_def js_set_def Let_def)

lemma foldl_reducer_schema_dom:
  "dom (snd (foldl (reducer c g) st xs)) =
     dom (snd st) \<union>
       input_id ` {p \<in> set xs. input_type p \<in> {''select'', ''slider'', ''tags''} \<and>
                                input_id p \<noteq> ''__proto__''}"
proof (induction xs arbitrary: st)
  case Nil
  show ?case by simp
next
  case (Cons x xs)
  show ?case
    unfolding foldl_Cons Cons.IH reducer_schema_dom by auto
qed

lemma card_recognized:
  assumes "distinct (map input_id ins)"
  shows "card (input_id ` {p \<in> set ins. R p}) = length (filter R ins)"
proof -
  from assms have inj: "inj_on input_id (set ins)" and d: "distinct ins"
    by (simp_all add: distinct_map)
  have "card (input_id ` {p \<in> set ins. R p}) = card {p \<in> set ins. R p}"
    by (rule card_image) (rule inj_on_subset [OF inj], auto)
  also have "\<dots> = card (set (filter R ins))" by simp
  also have "\<dots> = length (filter R ins)"
    by (rule distinct_card) (simp add: d)
  finally show ?thesis .
qed

text \<open>
  A declared bound other than 0 does reach the number schema of a slider, and the schema
  then requires it.
\<close>

lemma slider_schema_nonzero_min:
  "input_min p = Some m \<Longrightarrow> m \<noteq> 0 \<Longrightarrow> slider_schema p = YupNumber lo hi \<Longrightarrow>
   yup_number_accepts lo hi x \<Longrightarrow> m \<le> x"
  by (cases lo) (simp_all add: slider_schema_def truthy_number_def yup_number_accepts_def)

lemma slider_schema_nonzero_max:
  "input_max p = Some m \<Longrightarrow> m \<noteq> 0 \<Longrightarrow> slider_schema p = YupNumber lo hi \<Longrightarrow>
   yup_number_accepts lo hi x \<Longrightarrow> x \<le> m"
  by (cases hi) (simp_all add: slider_schema_def truthy_number_def yup_number_accepts_def)

section \<open>The text of the warning\<close>

lemma sublist_front: "sublist xs (xs @ ys)"
  by (metis append_Nil sublist_appendI)

lemma sublist_fifth: "sublist xs (a @ b @ c @ e @ xs @ f)"
  by (metis append.assoc sublist_appendI)

section \<open>The callback on the store\<close>

lemma obj_at_update_other: "a \<noteq> s \<Longrightarrow> obj_at (h[s := c]) a = obj_at h a"
  by (simp add: obj_at_def)

lemma obj_at_update_same: "s < length h \<Longrightarrow> obj_at (h[s := Obj m]) s = m"
  by (simp add: obj_at_def)

lemma obj_at_append: "a < length h \<Longrightarrow> obj_at (h @ xs) a = obj_at h a"
  by (simp add: obj_at_def nth_append)

text \<open>
  When \<^verbatim>\<open>settings\<close> is an object of the store other than the two input objects, the
  loop on the store changes the cell of \<^verbatim>\<open>settings\<close> only, and what it leaves there is
  what the callback computes from the contents the input objects had at the start.
\<close>

lemma foldl_reducer_h:
  assumes "s < length h" and "c \<noteq> s" and "g \<noteq> s"
  shows "length (fst (foldl (reducer_h s c g) (h, sch) xs)) = length h \<and>
         (\<forall>a. a \<noteq> s \<longrightarrow> fst (foldl (reducer_h s c g) (h, sch) xs) ! a = h ! a) \<and>
         (obj_at (fst (foldl (reducer_h s c g) (h, sch) xs)) s,
          snd (foldl (reducer_h s c g) (h, sch) xs))
           = foldl (reducer (obj_at h c) (obj_at h g)) (obj_at h s, sch) xs"
  using assms
proof (induction xs arbitrary: h sch)
  case Nil
  show ?case by simp
next
  case (Cons x xs)
  let ?r = "reducer (obj_at h c) (obj_at h g) (obj_at h s, sch) x"
  let ?h = "h[s := Obj (fst ?r)]"
  have step: "reducer_h s c g (h, sch) x = (?h, snd ?r)"
    by (simp add: reducer_h_def Let_def)
  have len: "s < length ?h" using Cons.prems(1) by simp
  have c: "obj_at ?h c = obj_at h c" and g: "obj_at ?h g = obj_at h g"
    using Cons.prems(2,3) by (simp_all add: obj_at_update_other)
  have s: "obj_at ?h s = fst ?r"
    using Cons.prems(1) by (simp add: obj_at_update_same)
  from Cons.IH [OF len Cons.prems(2,3), of "snd ?r"]
  show ?case
    unfolding foldl_Cons step c g s by simp
qed

lemma or_empty_cases:
  assumes "or_empty r h = (a, h')"
  shows "(r = Some a \<and> h' = h) \<or> (r = None \<and> a = length h \<and> h' = h @ [Obj Map.empty])"
  using assms by (auto simp add: or_empty_def alloc_def split: option.splits)

text \<open>
  One call of \<^verbatim>\<open>ModelSettings\<close> with a provider: the object it returns is new, the
  store it was given is a prefix of the store it leaves, and the new object holds the
  settings resolved from the contents of the two input objects.
\<close>

lemma ModelSettings_call:
  assumes vc: "valid_ref h (settings_of (prompt pg))"
    and vg: "valid_ref h (settings_of (originalPrompt pg))"
  shows "\<exists>sch h'. ModelSettings (Some p) pg h = (Some (length h, sch), h') \<and>
           length h < length h' \<and> take (length h) h' = h \<and>
           (obj_at h' (length h), sch) =
             resolve (inputs p) (settings_contents h (settings_of (prompt pg)))
               (settings_contents h (settings_of (originalPrompt pg)))"
proof -
  let ?s = "length h"
  let ?h1 = "h @ [Obj Map.empty]"
  let ?C = "settings_contents h (settings_of (prompt pg))"
  let ?G = "settings_contents h (settings_of (originalPrompt pg))"
  obtain c h2 where c: "or_empty (settings_of (prompt pg)) ?h1 = (c, h2)" by force
  obtain g h3 where g: "or_empty (settings_of (originalPrompt pg)) h2 = (g, h3)" by force
  obtain k2 where h2: "h2 = ?h1 @ k2" and cs: "c \<noteq> ?s" and cc: "obj_at h2 c = ?C"
    and cl: "c < length h2"
    using or_empty_cases [OF c] vc
    by (auto simp add: valid_ref_def is_obj_def settings_contents_def obj_at_def nth_append)
  obtain k3 where h3: "h3 = h2 @ k3" and gs: "g \<noteq> ?s" and gc: "obj_at h3 g = ?G"
    using or_empty_cases [OF g] vg h2
    by (auto simp add: valid_ref_def is_obj_def settings_contents_def obj_at_def nth_append)
  have cc3: "obj_at h3 c = ?C"
    using cc cl h3 by (simp add: obj_at_append)
  have h3': "h3 = h @ Obj Map.empty # k2 @ k3"
    using h2 h3 by simp
  have sl: "?s < length h3" and s0: "obj_at h3 ?s = Map.empty"
    by (simp_all add: h3' obj_at_def)
  let ?st = "foldl (reducer_h ?s c g) (h3, Map.empty) (inputs p)"
  from foldl_reducer_h [OF sl cs gs, of Map.empty "inputs p"]
  have len: "length (fst ?st) = length h3"
    and frame: "\<And>a. a \<noteq> ?s \<Longrightarrow> fst ?st ! a = h3 ! a"
    and res: "(obj_at (fst ?st) ?s, snd ?st) = resolve (inputs p) ?C ?G"
    by (simp_all add: cc3 gc s0 resolve_def)
  have call: "ModelSettings (Some p) pg h = (Some (?s, snd ?st), fst ?st)"
    by (simp add: ModelSettings_def alloc_def c g case_prod_beta)
  have grow: "?s < length (fst ?st)"
    using len sl by simp
  have "take ?s (fst ?st) = take ?s h3"
    by (rule nth_take_lemma) (use len sl frame in auto)
  then have old: "take ?s (fst ?st) = h"
    by (simp add: h3')
  from call grow old res show ?thesis by blast
qed

section \<open>The resolved settings\<close>

text \<open>
  Claim C1, as amended. In a catalog whose ids are distinct (the invariant of a catalog) and
  none of whose ids names a property of \<^verbatim>\<open>Object.prototype\<close>, the resolved value of every
  input \<open>p\<close> is found as follows. The candidate is the current value of
  \<open>input_id p\<close> when it is defined, else the original value. A defined candidate that is
  compatible with \<open>p\<close> is the resolved value; otherwise the resolved value is the initial
  value of \<open>p\<close>, and when that is undefined too the key is absent from the result.
\<close>

theorem resolve_priority_chain:
  assumes "distinct (map input_id ins)" and "p \<in> set ins"
    and "input_id ` set ins \<inter> set object_prototype_keys = {}"
  shows "fst (resolve ins current original) (input_id p) =
     (case (case current (input_id p) of Some v \<Rightarrow> Some v | None \<Rightarrow> original (input_id p)) of
        Some v \<Rightarrow> if isSettingCompatible v p then Some v else initial p
      | None \<Rightarrow> initial p)"
proof -
  from assms(2,3) have k: "input_id p \<notin> set object_prototype_keys"
    by blast
  then have n: "input_id p \<noteq> ''__proto__''"
    using proto_is_prototype_key by metis
  show ?thesis
    using resolve_entry [OF assms(1,2), of current original] n
    unfolding js_get_ordinary [OF k] by simp
qed

theorem resolve_priority_chain_witness:
  "distinct (map input_id [temperature_input, model_input ''A'' ''B'']) \<and>
   model_input ''A'' ''B'' \<in> set [temperature_input, model_input ''A'' ''B''] \<and>
   input_id ` set [temperature_input, model_input ''A'' ''B''] \<inter> set object_prototype_keys = {} \<and>
   fst (resolve [temperature_input, model_input ''A'' ''B'']
          (Map.empty(''model'' \<mapsto> VStr ''z'')) (Map.empty(''model'' \<mapsto> VStr ''b'')))
       (input_id (model_input ''A'' ''B'')) = Some (VStr ''a'')"
proof -
  have d: "distinct (map input_id [temperature_input, model_input ''A'' ''B''])"
    by (simp add: temperature_input_def model_input_def)
  have m: "model_input ''A'' ''B'' \<in> set [temperature_input, model_input ''A'' ''B'']"
    by simp
  have k: "input_id ` set [temperature_input, model_input ''A'' ''B'']
             \<inter> set object_prototype_keys = {}"
    by (simp add: temperature_input_def model_input_def object_prototype_keys_def)
  show ?thesis
    using d m k resolve_priority_chain [OF d m k, of "Map.empty(''model'' \<mapsto> VStr ''z'')"
        "Map.empty(''model'' \<mapsto> VStr ''b'')"]
    by (simp add: model_input_def isSettingCompatible_def)
qed

text \<open>
  Claim C1 as stated, for every input of every catalog, fails at an id that names a property
  of \<^verbatim>\<open>Object.prototype\<close>. With empty current and original settings the claim gives each
  of the two inputs below its initial value. For the text input \<^verbatim>\<open>toString\<close> the read
  finds the inherited function, which is defined and compatible, and that function is the
  resolved value. For the input \<^verbatim>\<open>__proto__\<close> the assignment creates no own property, and
  the key is absent although the initial value is defined.
\<close>

theorem resolve_priority_chain_counterexample:
  "distinct (map input_id [toString_input]) \<and> toString_input \<in> set [toString_input] \<and>
   fst (resolve [toString_input] Map.empty Map.empty) (input_id toString_input)
     \<noteq> (case (case (Map.empty :: ILLMSettings) (input_id toString_input) of
                 Some v \<Rightarrow> Some v
               | None \<Rightarrow> (Map.empty :: ILLMSettings) (input_id toString_input)) of
           Some v \<Rightarrow> if isSettingCompatible v toString_input then Some v
                     else initial toString_input
         | None \<Rightarrow> initial toString_input) \<and>
   fst (resolve [toString_input] Map.empty Map.empty) (input_id toString_input)
     = Some (VInherited ''toString'') \<and>
   initial toString_input = Some (VStr ''x'') \<and>
   distinct (map input_id [proto_input]) \<and> proto_input \<in> set [proto_input] \<and>
   fst (resolve [proto_input] Map.empty Map.empty) (input_id proto_input)
     \<noteq> (case (case (Map.empty :: ILLMSettings) (input_id proto_input) of
                 Some v \<Rightarrow> Some v
               | None \<Rightarrow> (Map.empty :: ILLMSettings) (input_id proto_input)) of
           Some v \<Rightarrow> if isSettingCompatible v proto_input then Some v
                     else initial proto_input
         | None \<Rightarrow> initial proto_input) \<and>
   fst (resolve [proto_input] Map.empty Map.empty) (input_id proto_input) = None \<and>
   initial proto_input = Some (VStr ''a'')"
  by (simp add: resolve_def reducer_def js_get_def js_set_def object_prototype_keys_def
      toString_input_def proto_input_def isSettingCompatible_def Let_def)

text \<open>
  Claim C2. The compatibility check depends on the kind of the input: a value is compatible
  with a select exactly when it is the value of one of the declared items of the select, and
  every value is compatible with an input of any other kind.
\<close>

theorem isSettingCompatible_by_kind:
  "isSettingCompatible v p \<longleftrightarrow>
     (input_type p = ''select'' \<longrightarrow>
        v \<in> item_value ` (case items p of None \<Rightarrow> {} | Some its \<Rightarrow> set its))"
  by (auto simp add: isSettingCompatible_def find_None_iff split: option.splits)

theorem isSettingCompatible_by_kind_witness:
  "input_type (model_input ''A'' ''B'') = ''select'' \<and>
   isSettingCompatible (VStr ''b'') (model_input ''A'' ''B'') \<and>
   \<not> isSettingCompatible (VStr ''c'') (model_input ''A'' ''B'') \<and>
   input_type temperature_input \<noteq> ''select'' \<and>
   isSettingCompatible (VStr ''c'') temperature_input"
  using isSettingCompatible_by_kind [of "VStr ''b''" "model_input ''A'' ''B''"]
    isSettingCompatible_by_kind [of "VStr ''c''" "model_input ''A'' ''B''"]
    isSettingCompatible_by_kind [of "VStr ''c''" temperature_input]
  by (simp add: model_input_def temperature_input_def)

text \<open>
  Claim C3. The validator built for a slider should require a value to be at least the
  declared minimum, also when that minimum is 0. The code tests \<^verbatim>\<open>if (input.min)\<close>, which
  is false for 0: for the slider \<^verbatim>\<open>temperature\<close> with minimum 0 and maximum 2 the schema
  entry is a number schema without a lower bound, and it accepts the value -1.
\<close>

theorem slider_zero_min_dropped:
  "snd (resolve [temperature_input] current original) ''temperature''
     = Some (YupNumber None (Some 2)) \<and>
   yup_number_accepts None (Some 2) (- 1)"
  by (simp add: resolve_def reducer_def js_get_def js_set_def object_prototype_keys_def
      temperature_input_def slider_schema_def truthy_number_def yup_number_accepts_def Let_def)

text \<open>
  Claim C4. Every key of the resolved settings is the id of an input of the catalog, whatever
  the current and the original settings hold: their other keys never reach the result.
\<close>

theorem resolve_no_key_leak:
  "dom (fst (resolve ins current original)) \<subseteq> input_id ` set ins"
  using foldl_reducer_settings_dom [of current original "(Map.empty, Map.empty)" ins]
  by (simp add: resolve_def)

text \<open>
  Claim C5, as amended. In a catalog with distinct ids, none of them \<^verbatim>\<open>__proto__\<close>, the
  schema has exactly one entry for each input whose type is \<^verbatim>\<open>select\<close>, \<^verbatim>\<open>slider\<close> or
  \<^verbatim>\<open>tags\<close>: its keys are the ids of these inputs and there are as many keys as such
  inputs. An input of any other type has no entry, so the schema never blocks its field,
  however strict the validation of the entries is.
\<close>

theorem schema_entries:
  assumes "distinct (map input_id ins)" and "''__proto__'' \<notin> input_id ` set ins"
  shows "dom (snd (resolve ins current original)) =
           input_id ` {p \<in> set ins. input_type p \<in> {''select'', ''slider'', ''tags''}} \<and>
         card (dom (snd (resolve ins current original))) =
           length (filter (\<lambda>p. input_type p \<in> {''select'', ''slider'', ''tags''}) ins) \<and>
         (\<forall>p \<in> set ins. input_type p \<notin> {''select'', ''slider'', ''tags''} \<longrightarrow>
            snd (resolve ins current original) (input_id p) = None \<and>
            \<not> field_blocked ok (snd (resolve ins current original)) vals (input_id p))"
proof -
  let ?R = "\<lambda>p. input_type p \<in> {''select'', ''slider'', ''tags''}"
  have np: "input_id q \<noteq> ''__proto__''" if "q \<in> set ins" for q
    using that assms(2) by (metis imageI)
  have "{p \<in> set ins. ?R p \<and> input_id p \<noteq> ''__proto__''} = {p \<in> set ins. ?R p}"
    using np by blast
  then have dm: "dom (snd (resolve ins current original)) = input_id ` {p \<in> set ins. ?R p}"
    using foldl_reducer_schema_dom [of current original "(Map.empty, Map.empty)" ins]
    by (simp add: resolve_def)
  have cd: "card (dom (snd (resolve ins current original))) = length (filter ?R ins)"
    unfolding dm by (rule card_recognized [OF assms(1)])
  have none: "snd (resolve ins current original) (input_id p) = None"
    if p: "p \<in> set ins" and u: "\<not> ?R p" for p
  proof -
    from assms(1) have inj: "inj_on input_id (set ins)" by (simp add: distinct_map)
    have "input_id p \<notin> input_id ` {q \<in> set ins. ?R q}"
    proof
      assume "input_id p \<in> input_id ` {q \<in> set ins. ?R q}"
      then obtain q where q: "q \<in> set ins" "?R q" "input_id p = input_id q" by auto
      with inj p have "p = q" by (auto dest: inj_onD)
      with q u show False by simp
    qed
    then show ?thesis unfolding dm [symmetric] by (simp add: domIff)
  qed
  from dm cd none show ?thesis by (simp add: field_blocked_def)
qed

theorem schema_entries_witness:
  "distinct (map input_id (inputs openai)) \<and>
   ''__proto__'' \<notin> input_id ` set (inputs openai) \<and>
   card (dom (snd (resolve (inputs openai) Map.empty Map.empty))) = 2 \<and>
   stream_input \<in> set (inputs openai) \<and>
   input_type stream_input \<notin> {''select'', ''slider'', ''tags''} \<and>
   snd (resolve (inputs openai) Map.empty Map.empty) ''stream'' = None \<and>
   \<not> field_blocked (\<lambda>sch v. False) (snd (resolve (inputs openai) Map.empty Map.empty))
       Map.empty ''stream''"
proof -
  have d: "distinct (map input_id (inputs openai))"
    by (simp add: openai_def temperature_input_def model_input_def stream_input_def)
  have k: "''__proto__'' \<notin> input_id ` set (inputs openai)"
    by (simp add: openai_def temperature_input_def model_input_def stream_input_def)
  have m: "stream_input \<in> set (inputs openai)"
    by (simp add: openai_def)
  have t: "input_type stream_input \<notin> {''select'', ''slider'', ''tags''}"
    by (simp add: stream_input_def)
  have i: "input_id stream_input = ''stream''"
    by (simp add: stream_input_def)
  have n: "length (filter (\<lambda>p. input_type p \<in> {''select'', ''slider'', ''tags''})
             (inputs openai)) = 2"
    by (simp add: openai_def temperature_input_def model_input_def stream_input_def)
  let ?sch = "snd (resolve (inputs openai) Map.empty Map.empty)"
  note e = schema_entries [OF d k, of Map.empty Map.empty "\<lambda>sch v. False" Map.empty]
  from e have "card (dom ?sch) =
      length (filter (\<lambda>p. input_type p \<in> {''select'', ''slider'', ''tags''}) (inputs openai))"
    by blast
  with n have c: "card (dom ?sch) = 2" by simp
  from e have "\<forall>p \<in> set (inputs openai).
      input_type p \<notin> {''select'', ''slider'', ''tags''} \<longrightarrow>
      ?sch (input_id p) = None \<and>
      \<not> field_blocked (\<lambda>sch v. False) ?sch Map.empty (input_id p)"
    by blast
  with m t have "?sch (input_id stream_input) = None \<and>
      \<not> field_blocked (\<lambda>sch v. False) ?sch Map.empty (input_id stream_input)"
    by blast
  with c have "card (dom ?sch) = 2 \<and> ?sch ''stream'' = None \<and>
      \<not> field_blocked (\<lambda>sch v. False) ?sch Map.empty ''stream''"
    unfolding i by simp
  with d k m t i show ?thesis by simp
qed

text \<open>
  Claim C5 as stated, for every catalog, fails at the id \<^verbatim>\<open>__proto__\<close>. The catalog with
  the one select \<^verbatim>\<open>__proto__\<close> has distinct ids and one input of a recognized type, but
  the assignment of its schema creates no own property: the schema has no entry at all.
\<close>

theorem schema_entries_counterexample:
  "distinct (map input_id [proto_input]) \<and>
   length (filter (\<lambda>p. input_type p \<in> {''select'', ''slider'', ''tags''}) [proto_input]) = 1 \<and>
   dom (snd (resolve [proto_input] Map.empty Map.empty)) = {} \<and>
   card (dom (snd (resolve [proto_input] Map.empty Map.empty)))
     \<noteq> length (filter (\<lambda>p. input_type p \<in> {''select'', ''slider'', ''tags''}) [proto_input])"
  by (simp add: resolve_def reducer_def js_get_def js_set_def object_prototype_keys_def
      proto_input_def isSettingCompatible_def Let_def)

text \<open>
  Claim C6. For the catalog of the scenario, the current settings \<^verbatim>\<open>{temperature: 3}\<close> and
  the original settings \<^verbatim>\<open>{model: "c"}\<close>, the resolved settings are exactly
  \<^verbatim>\<open>{temperature: 3, model: "a"}\<close>: the number 3 is carried over although it is above the
  declared maximum, and \<^verbatim>\<open>c\<close>, which is not the value of an item, gives way to the initial
  value \<^verbatim>\<open>a\<close>.
\<close>

theorem scenario_resolve:
  "fst (resolve [temperature_input, model_input la lb]
          (Map.empty(''temperature'' \<mapsto> VNum 3)) (Map.empty(''model'' \<mapsto> VStr ''c'')))
   = Map.empty(''temperature'' \<mapsto> VNum 3, ''model'' \<mapsto> VStr ''a'')"
  by (simp add: resolve_def reducer_def js_get_def js_set_def object_prototype_keys_def
      temperature_input_def model_input_def isSettingCompatible_def Let_def)

text \<open>
  Claim C7. \<^verbatim>\<open>ModelSettings\<close> is pure and deterministic. Let the settings references of
  the playground state be valid in the store. Two calls, one after the other, on the same
  provider and playground state return two different objects, each new to the store it was
  called on; the store before a call is a prefix of the store after it, so no object that
  existed is mutated, the two input objects among them; and the two returned objects have
  the same contents and come with the same schema, namely the settings and the schema
  resolved from the contents of the input objects.
\<close>

theorem ModelSettings_pure:
  assumes "valid_ref h (settings_of (prompt pg))"
    and "valid_ref h (settings_of (originalPrompt pg))"
  shows "\<exists>s1 sch1 h1 s2 sch2 h2.
           ModelSettings (Some p) pg h = (Some (s1, sch1), h1) \<and>
           ModelSettings (Some p) pg h1 = (Some (s2, sch2), h2) \<and>
           length h \<le> s1 \<and> length h1 \<le> s2 \<and> s1 \<noteq> s2 \<and>
           take (length h) h1 = h \<and> take (length h1) h2 = h1 \<and>
           obj_at h2 s1 = obj_at h2 s2 \<and> sch1 = sch2 \<and>
           (obj_at h2 s2, sch2) =
             resolve (inputs p) (settings_contents h (settings_of (prompt pg)))
               (settings_contents h (settings_of (originalPrompt pg)))"
proof -
  let ?C = "settings_of (prompt pg)" and ?G = "settings_of (originalPrompt pg)"
  from ModelSettings_call [OF assms, of p] obtain sch1 h1 where
    c1: "ModelSettings (Some p) pg h = (Some (length h, sch1), h1)"
    and l1: "length h < length h1" and t1: "take (length h) h1 = h"
    and r1: "(obj_at h1 (length h), sch1) =
        resolve (inputs p) (settings_contents h ?C) (settings_contents h ?G)"
    by blast
  have same: "h1 ! a = h ! a" if "a < length h" for a
    using that t1 by (metis nth_take)
  have v1: "valid_ref h1 r" and e1: "settings_contents h1 r = settings_contents h r"
    if "valid_ref h r" for r
    using that l1 same
    by (auto simp add: valid_ref_def is_obj_def settings_contents_def obj_at_def
        split: option.splits)
  from ModelSettings_call [OF v1 [OF assms(1)] v1 [OF assms(2)], of p] obtain sch2 h2 where
    c2: "ModelSettings (Some p) pg h1 = (Some (length h1, sch2), h2)"
    and l2: "length h1 < length h2" and t2: "take (length h1) h2 = h1"
    and r2: "(obj_at h2 (length h1), sch2) =
        resolve (inputs p) (settings_contents h1 ?C) (settings_contents h1 ?G)"
    by blast
  have "h2 ! length h = h1 ! length h"
    using l1 t2 by (metis nth_take)
  then have keep: "obj_at h2 (length h) = obj_at h1 (length h)"
    using l1 l2 by (simp add: obj_at_def)
  have r2': "(obj_at h2 (length h1), sch2) =
        resolve (inputs p) (settings_contents h ?C) (settings_contents h ?G)"
    using r2 by (simp add: e1 [OF assms(1)] e1 [OF assms(2)])
  from r1 r2' keep have eq: "obj_at h2 (length h) = obj_at h2 (length h1)" "sch1 = sch2"
    by (metis fst_conv, metis snd_conv)
  from c1 c2 l1 t1 t2 eq r2' show ?thesis
    by (intro exI [of _ "length h"] exI [of _ sch1] exI [of _ h1]
        exI [of _ "length h1"] exI [of _ sch2] exI [of _ h2]) simp
qed

theorem ModelSettings_pure_witness:
  "valid_ref scenario_heap (settings_of (prompt scenario_playground)) \<and>
   valid_ref scenario_heap (settings_of (originalPrompt scenario_playground)) \<and>
   (\<exists>s1 sch1 h1 s2 sch2 h2.
      ModelSettings (Some openai) scenario_playground scenario_heap = (Some (s1, sch1), h1) \<and>
      ModelSettings (Some openai) scenario_playground h1 = (Some (s2, sch2), h2) \<and>
      length scenario_heap \<le> s1 \<and> length h1 \<le> s2 \<and> s1 \<noteq> s2 \<and>
      take (length scenario_heap) h1 = scenario_heap \<and> take (length h1) h2 = h1 \<and>
      obj_at h2 s1 = obj_at h2 s2 \<and> sch1 = sch2 \<and>
      (obj_at h2 s2, sch2) =
        resolve (inputs openai)
          (settings_contents scenario_heap (settings_of (prompt scenario_playground)))
          (settings_contents scenario_heap (settings_of (originalPrompt scenario_playground))))"
proof -
  have a: "valid_ref scenario_heap (settings_of (prompt scenario_playground))"
    by (simp add: valid_ref_def is_obj_def settings_of_def scenario_playground_def
        scenario_heap_def)
  have b: "valid_ref scenario_heap (settings_of (originalPrompt scenario_playground))"
    by (simp add: valid_ref_def is_obj_def settings_of_def scenario_playground_def
        scenario_heap_def)
  from a b ModelSettings_pure [OF a b, of openai] show ?thesis by blast
qed

text \<open>
  Claim C8. The effect that follows the form values replaces the settings of the prompt by
  the form values as a whole, whatever the settings were, and changes nothing else of the
  playground state: the provider of the prompt, the other properties of the prompt, the
  original prompt, the list of providers and every other field stay as they were.
\<close>

theorem sync_settings_frame:
  "settings_of (prompt (sync_settings formik_values old)) = Some formik_values \<and>
   prompt_provider_of (sync_settings formik_values old) = prompt_provider_of old \<and>
   prompt_rest_of (sync_settings formik_values old) = prompt_rest_of old \<and>
   originalPrompt (sync_settings formik_values old) = originalPrompt old \<and>
   providers (sync_settings formik_values old) = providers old \<and>
   IPlayground.more (sync_settings formik_values old) = IPlayground.more old"
  by (simp add: sync_settings_def settings_of_def prompt_provider_of_def prompt_rest_of_def
      empty_prompt_def split: option.splits)

text \<open>
  Claim C9. When the prompt names a provider id that is not the id of a known provider, the
  form uses the default provider and shows a warning whose text contains the missing id and
  the name of the default provider.
\<close>

theorem provider_not_found_notice:
  assumes "prompt_provider_of playground = Some pid"
    and "pid \<notin> provider_id ` set (case providers playground of None \<Rightarrow> [] | Some ps \<Rightarrow> ps)"
  shows "\<exists>msg. SettingsForm_warning d playground = (d, Some msg) \<and>
           sublist pid msg \<and> sublist (provider_name d) msg"
proof -
  let ?known = "case providers playground of None \<Rightarrow> [] | Some ps \<Rightarrow> ps"
  from assms(2) have nf: "find (\<lambda>p. provider_id p = pid) ?known = None"
    by (auto simp add: find_None_iff)
  have gp: "getProviders d playground = (d, ?known, False)"
    using assms(1) nf by (simp add: getProviders_def)
  show ?thesis
  proof (cases "pid = []")
    case True
    define msg where "msg = ''Provider not specified, using '' @ provider_name d @ '' instead.''"
    have w: "SettingsForm_warning d playground = (d, Some msg)"
      using assms(1) gp True
      by (simp add: SettingsForm_warning_def providerWarning_def truthy_string_def msg_def)
    have "sublist (provider_name d) msg"
      unfolding msg_def by (rule sublist_appendI)
    with w True show ?thesis by simp
  next
    case False
    define msg where "msg = pid @ '' provider is not found, using '' @ [CHR 0x0A] @ ''      ''
                      @ provider_name d @ '' instead.''"
    have w: "SettingsForm_warning d playground = (d, Some msg)"
      using assms(1) gp False
      by (simp add: SettingsForm_warning_def providerWarning_def truthy_string_def msg_def)
    have a: "sublist pid msg"
      unfolding msg_def by (rule sublist_front)
    have b: "sublist (provider_name d) msg"
      unfolding msg_def by (rule sublist_fifth [of _ pid])
    from w a b show ?thesis by blast
  qed
qed

theorem provider_not_found_notice_witness:
  "prompt_provider_of stale_playground = Some ''gpt'' \<and>
   ''gpt'' \<notin> provider_id ` set (case providers stale_playground of None \<Rightarrow> [] | Some ps \<Rightarrow> ps) \<and>
   (\<exists>msg. SettingsForm_warning openai stale_playground = (openai, Some msg) \<and>
           sublist ''gpt'' msg \<and> sublist (provider_name openai) msg)"
proof -
  have a: "prompt_provider_of stale_playground = Some ''gpt''"
    by (simp add: prompt_provider_of_def stale_playground_def)
  have b: "''gpt'' \<notin> provider_id ` set (case providers stale_playground of None \<Rightarrow> [] | Some ps \<Rightarrow> ps)"
    by (simp add: stale_playground_def openai_def)
  from a b provider_not_found_notice [OF a b, of openai] show ?thesis by blast
qed



end
